theory Spec2Isabelle
  imports Main "HOL-Library.Word"
begin

section \<open>Values, records and the library boundary\<close>

text \<open>
  The converter of \<^verbatim>\<open>legacy.go\<close> works on dynamically typed attribute values
  (\<^verbatim>\<open>interface{}\<close>). The variants below are the dynamic types its type switch tells
  apart. A Go string is a sequence of bytes, as \<^typ>\<open>string\<close> is.
\<close>

type_synonym byte = "8 word"

datatype bval =
    VNil                              \<comment> \<open>the nil interface\<close>
  | VBool bool
  | VInt int                          \<comment> \<open>an \<^verbatim>\<open>int\<close>, \<^verbatim>\<open>int32\<close> or \<^verbatim>\<open>int64\<close>, by the number it holds\<close>
  | VFloat "64 word"                  \<comment> \<open>a \<^verbatim>\<open>float32\<close> or \<^verbatim>\<open>float64\<close>, by its bits\<close>
  | VString string
  | VDateTime int                     \<comment> \<open>\<^verbatim>\<open>primitive.DateTime\<close>\<close>
  | VBinary byte "byte list"          \<comment> \<open>\<^verbatim>\<open>primitive.Binary{Subtype, Data}\<close>\<close>
  | VObjectID "byte list"             \<comment> \<open>\<^verbatim>\<open>primitive.ObjectID\<close>\<close>
  | VTimestamp "32 word" "32 word"    \<comment> \<open>\<^verbatim>\<open>primitive.Timestamp{T, I}\<close>\<close>
  | VRegex string string              \<comment> \<open>\<^verbatim>\<open>primitive.Regex{Pattern, Options}\<close>\<close>
  | VArray "bval list"                \<comment> \<open>\<^verbatim>\<open>bson.A\<close>\<close>
  | VDoc "(string \<times> bval) list"       \<comment> \<open>\<^verbatim>\<open>bson.D\<close>\<close>
  | VElem string bval                 \<comment> \<open>\<^verbatim>\<open>bson.E{Key, Value}\<close>\<close>
  | VOther string                     \<comment> \<open>any other dynamic type, by its type name\<close>

text \<open>A run either panics or returns; these are the panics the two functions can raise.\<close>

datatype panic =
    TypeAssertion       \<comment> \<open>\<^verbatim>\<open>x.(string)\<close> on a value that is not a string\<close>
  | IndexOutOfRange     \<comment> \<open>\<^verbatim>\<open>toks[1]\<close> past the end\<close>
  | SliceOutOfRange     \<comment> \<open>\<^verbatim>\<open>x[a:b]\<close> past the end\<close>

text \<open>Lines written to the process-wide logger, in the order they are written.\<close>

datatype diag =
    UnhandledSubtype byte     \<comment> \<open>\<^verbatim>\<open>log.Println("unhandled subtype", data.Subtype)\<close>\<close>
  | UnhandledType bval        \<comment> \<open>\<^verbatim>\<open>log.Printf("unhandled data type %T, %v", o, o)\<close>\<close>

text \<open>
  What the file calls but does not define is a parameter of the model: the text
  \<^verbatim>\<open>fmt\<close> prints under \<^verbatim>\<open>%v\<close> for a value that is not a string, nil, a boolean or
  an integer; \<^verbatim>\<open>bson.MarshalExtJSON\<close> (its error is dropped by the caller, its bytes
  read as a string); and the package's own \<^verbatim>\<open>ToInt\<close>.
\<close>

record golib =
  fmtOther :: "bval \<Rightarrow> string"
  MarshalExtJSON :: "bval \<Rightarrow> string"
  toInt :: "bval \<Rightarrow> int"

record Remote =
  Value :: string
  Port :: string
  Accepted :: int
  Ended :: int
  Conns :: int

text \<open>
  Of \<^verbatim>\<open>Logv2Info\<close> the function touches five fields; the others are the record's
  extension. \<^verbatim>\<open>Remote\<close> is a pointer, nil when nothing is attached.
\<close>

record Logv2Info =
  Component :: string
  Msg :: string
  Attr :: "(string \<times> bval) list"
  Message :: string
  Remote :: "Remote option"

section \<open>Library functions\<close>

definition digit :: "nat \<Rightarrow> char" where
  "digit d = ''0123456789abcdef'' ! d"

fun decimal :: "nat \<Rightarrow> string" where
  "decimal n = (if n < 10 then [digit n] else decimal (n div 10) @ [digit (n mod 10)])"

declare decimal.simps [simp del]

definition itoa :: "int \<Rightarrow> string" where
  "itoa i = (if i < 0 then CHR ''-'' # decimal (nat (- i)) else decimal (nat i))"

text \<open>\<^verbatim>\<open>fmt.Sprintf("%v", x)\<close>.\<close>

definition fmtV :: "golib \<Rightarrow> bval \<Rightarrow> string" where
  "fmtV L x =
     (case x of
        VString s \<Rightarrow> s
      | VNil \<Rightarrow> ''<nil>''
      | VBool b \<Rightarrow> (if b then ''true'' else ''false'')
      | VInt i \<Rightarrow> itoa i
      | _ \<Rightarrow> fmtOther L x)"

text \<open>\<^verbatim>\<open>strings.Join\<close>.\<close>

fun strings_Join :: "string list \<Rightarrow> string \<Rightarrow> string" where
  "strings_Join [] sep = []"
| "strings_Join [x] sep = x"
| "strings_Join (x # y # ys) sep = x @ sep @ strings_Join (y # ys) sep"

text \<open>
  \<^verbatim>\<open>strings.Split(s, sep)\<close> for a separator of one byte, the only use in the file:
  one more piece than there are separators in \<open>s\<close>.
\<close>

fun strings_Split :: "string \<Rightarrow> char \<Rightarrow> string list" where
  "strings_Split [] sep = [[]]"
| "strings_Split (c # cs) sep =
     (if c = sep then [] # strings_Split cs sep
      else (case strings_Split cs sep of
              [] \<Rightarrow> [[c]]
            | t # ts \<Rightarrow> (c # t) # ts))"

text \<open>\<^verbatim>\<open>strings.Index(s, sep)\<close> for a separator of one byte: -1 when it is absent.\<close>

fun strings_Index :: "string \<Rightarrow> char \<Rightarrow> int" where
  "strings_Index [] sep = - 1"
| "strings_Index (c # cs) sep =
     (if c = sep then 0
      else (let i = strings_Index cs sep in if i < 0 then - 1 else i + 1))"

text \<open>\<^verbatim>\<open>hex.EncodeToString\<close>: two lower-case digits a byte.\<close>

definition hex_EncodeToString :: "byte list \<Rightarrow> string" where
  "hex_EncodeToString bs =
     concat (map (\<lambda>b. [digit (unat b div 16), digit (unat b mod 16)]) bs)"

text \<open>\<^verbatim>\<open>base64.StdEncoding.EncodeToString\<close>: the standard alphabet, padded.\<close>

definition b64digit :: "nat \<Rightarrow> char" where
  "b64digit n =
     ''ABCDEFGHIJKLMNOPQRSTUVWXYZabcdefghijklmnopqrstuvwxyz0123456789+/'' ! n"

fun base64_EncodeToString :: "byte list \<Rightarrow> string" where
  "base64_EncodeToString [] = []"
| "base64_EncodeToString [a] =
     [b64digit (unat a div 4), b64digit ((unat a mod 4) * 16), CHR ''='', CHR ''='']"
| "base64_EncodeToString [a, b] =
     [b64digit (unat a div 4), b64digit ((unat a mod 4) * 16 + unat b div 16),
      b64digit ((unat b mod 16) * 4), CHR ''='']"
| "base64_EncodeToString (a # b # c # rest) =
     [b64digit (unat a div 4), b64digit ((unat a mod 4) * 16 + unat b div 16),
      b64digit ((unat b mod 16) * 4 + unat c div 64), b64digit (unat c mod 64)]
     @ base64_EncodeToString rest"

text \<open>The slice expression \<^verbatim>\<open>x[lo:hi]\<close> on a string: a panic unless \<open>lo \<le> hi \<le> len(x)\<close>.\<close>

definition slice :: "string \<Rightarrow> nat \<Rightarrow> nat \<Rightarrow> panic + string" where
  "slice x lo hi =
     (if lo \<le> hi \<and> hi \<le> length x then Inr (take (hi - lo) (drop lo x))
      else Inl SliceOutOfRange)"

text \<open>\<^verbatim>\<open>bson.D.Map()\<close> and a lookup in the Go map: a later entry overwrites an earlier one,
  a missing key reads as nil.\<close>

definition Map_of_D :: "(string \<times> bval) list \<Rightarrow> string \<Rightarrow> bval" where
  "Map_of_D d k = (case map_of (rev d) k of None \<Rightarrow> VNil | Some v \<Rightarrow> v)"

section \<open>toLegacyString\<close>

text \<open>
  The UUID line of the \<^verbatim>\<open>primitive.Binary\<close> case:
  \<^verbatim>\<open>fmt.Sprintf(`{ $uuid: "%s-%s-%s-%s-%s"}`, x[:8], x[8:12], x[12:16], x[16:20], x[20:])\<close>,
  the five slices taken from left to right.
\<close>

definition uuidText :: "string \<Rightarrow> panic + string" where
  "uuidText x =
     (case slice x 0 8 of Inl p \<Rightarrow> Inl p | Inr g1 \<Rightarrow>
     (case slice x 8 12 of Inl p \<Rightarrow> Inl p | Inr g2 \<Rightarrow>
     (case slice x 12 16 of Inl p \<Rightarrow> Inl p | Inr g3 \<Rightarrow>
     (case slice x 16 20 of Inl p \<Rightarrow> Inl p | Inr g4 \<Rightarrow>
     (case slice x 20 (length x) of Inl p \<Rightarrow> Inl p | Inr g5 \<Rightarrow>
        Inr (''{ $uuid: '' @ [CHR 0x22] @ g1 @ ''-'' @ g2 @ ''-'' @ g3 @ ''-'' @ g4
             @ ''-'' @ g5 @ [CHR 0x22] @ ''}''))))))"


text \<open>
  The result is an \<^verbatim>\<open>interface{}\<close>: a string (\<open>VString\<close>) where the function renders,
  the argument itself where it returns \<^verbatim>\<open>o\<close>. With it come the lines logged on the way.
  The three loops are \<open>docEntries\<close> (the \<^verbatim>\<open>bson.D\<close> case), \<open>elemEntries\<close> (a document
  inside an array) and \<open>arrayItems\<close> (the \<^verbatim>\<open>bson.A\<close> case).
\<close>

fun toLegacyString :: "golib \<Rightarrow> bval \<Rightarrow> panic + (bval \<times> diag list)"
  and docEntries :: "golib \<Rightarrow> (string \<times> bval) list \<Rightarrow> panic + (string list \<times> diag list)"
  and elemEntries :: "golib \<Rightarrow> (string \<times> bval) list \<Rightarrow> panic + (string list \<times> diag list)"
  and arrayItems :: "golib \<Rightarrow> bval list \<Rightarrow> panic + (string list \<times> diag list)"
where
  "toLegacyString L VNil = Inr (VNil, [])"
| "toLegacyString L (VBool b) = Inr (VString ('' '' @ fmtV L (VBool b)), [])"
| "toLegacyString L (VArray items) =
     (case arrayItems L items of
        Inl p \<Rightarrow> Inl p
      | Inr (arrays, lg) \<Rightarrow> Inr (VString (''['' @ strings_Join arrays '', '' @ '']''), lg))"
| "toLegacyString L (VDoc d) =
     (case docEntries L d of
        Inl p \<Rightarrow> Inl p
      | Inr (arr, lg) \<Rightarrow> Inr (VString ('' { '' @ strings_Join arr '', '' @ '' }''), lg))"
| "toLegacyString L (VElem k v) =
     (case toLegacyString L v of
        Inl p \<Rightarrow> Inl p
      | Inr (val, lg) \<Rightarrow>
          if strings_Index k CHR ''.'' > 0
          then Inr (VString ('' { '' @ [CHR 0x22] @ k @ [CHR 0x22] @ '':'' @ fmtV L val @ '' } ''), lg)
          else Inr (VString ('' { '' @ k @ '':'' @ fmtV L val @ '' } ''), lg))"
| "toLegacyString L (VInt i) = Inr (VInt i, [])"
| "toLegacyString L (VFloat f) = Inr (VFloat f, [])"
| "toLegacyString L (VBinary sub dat) =
     (if sub = 0 then
        Inr (VString (''{ $binary:{ base64: '' @ [CHR 0x22] @ base64_EncodeToString dat
                      @ [CHR 0x22] @ '', subtype:0}}''), [])
      else if sub = 4 then
        (case uuidText (hex_EncodeToString dat) of
           Inl p \<Rightarrow> Inl p
         | Inr str \<Rightarrow> Inr (VString str, []))
      else Inr (VBinary sub dat, [UnhandledSubtype sub]))"
| "toLegacyString L (VObjectID oid) =
     Inr (VString (''{ $oid: '' @ [CHR 0x22] @ hex_EncodeToString oid @ [CHR 0x22] @ ''}''), [])"
| "toLegacyString L (VTimestamp t i) =
     Inr (VString (''{ t:'' @ decimal (unat t) @ '', i:'' @ decimal (unat i) @ ''}''), [])"
| "toLegacyString L (VString s) =
     Inr (VString ('' '' @ [CHR 0x22] @ fmtV L (VString s) @ [CHR 0x22]), [])"
| "toLegacyString L (VDateTime t) =
     Inr (VString ('' '' @ [CHR 0x22] @ fmtV L (VDateTime t) @ [CHR 0x22]), [])"
| "toLegacyString L (VRegex pat opts) = Inr (VString ('' /'' @ pat @ ''/'' @ opts), [])"
| "toLegacyString L (VOther ty) = Inr (VOther ty, [UnhandledType (VOther ty)])"
| "docEntries L [] = Inr ([], [])"
| "docEntries L ((k, v) # rest) =
     (case toLegacyString L v of
        Inl p \<Rightarrow> Inl p
      | Inr (val, lg) \<Rightarrow>
          (case docEntries L rest of
             Inl p \<Rightarrow> Inl p
           | Inr (arr, lg') \<Rightarrow> Inr ((k @ '':'' @ fmtV L val) # arr, lg @ lg')))"
| "elemEntries L [] = Inr ([], [])"
| "elemEntries L ((k, v) # rest) =
     (case toLegacyString L v of
        Inl p \<Rightarrow> Inl p
      | Inr (val, lg) \<Rightarrow>
          (case elemEntries L rest of
             Inl p \<Rightarrow> Inl p
           | Inr (arr, lg') \<Rightarrow> Inr ((''{ '' @ k @ '':'' @ fmtV L val @ '' }'') # arr, lg @ lg')))"
| "arrayItems L [] = Inr ([], [])"
| "arrayItems L (item # rest) =
     (case (case item of
              VDoc d \<Rightarrow> elemEntries L d
            | _ \<Rightarrow> (case toLegacyString L item of
                      Inl p \<Rightarrow> Inl p
                    | Inr (val, lg) \<Rightarrow> Inr ([fmtV L val], lg))) of
        Inl p \<Rightarrow> Inl p
      | Inr (arr, lg) \<Rightarrow>
          (case arrayItems L rest of
             Inl p \<Rightarrow> Inl p
           | Inr (arrays, lg') \<Rightarrow> Inr (strings_Join arr '', '' # arrays, lg @ lg')))"

section \<open>AddLegacyString\<close>

text \<open>Lines 22 to 32: the token the message contributes.\<close>

definition msgTokens :: "string \<Rightarrow> string list" where
  "msgTokens msg =
     (if msg \<noteq> ''Slow query'' then
        (if msg = ''Connection ended'' then [''end connection'']
         else if msg = ''Connection accepted'' then [''connection accepted'']
         else if msg = ''Authentication succeeded'' then [''Successfully authenticated'']
         else [msg])
      else [])"

text \<open>The body of the loop of the \<^verbatim>\<open>ACCESS\<close> branch, on \<open>arr\<close>.\<close>

definition accessAttr :: "golib \<Rightarrow> string \<times> bval \<Rightarrow> string list \<Rightarrow> string list" where
  "accessAttr L attr arr =
     (case attr of (k, v) \<Rightarrow>
        if k = ''authenticationDatabase'' then arr @ [''on '' @ fmtV L v]
        else if k = ''principalName'' then arr @ [''as principal '' @ fmtV L v]
        else if k = ''remote'' then arr @ [''from client '' @ fmtV L v]
        else if k = ''durationMillis'' then arr @ [fmtV L v @ ''ms'']
        else arr)"

fun accessLoop :: "golib \<Rightarrow> (string \<times> bval) list \<Rightarrow> string list \<Rightarrow> string list" where
  "accessLoop L [] arr = arr"
| "accessLoop L (attr # rest) arr = accessLoop L rest (accessAttr L attr arr)"

text \<open>An index expression \<^verbatim>\<open>toks[i]\<close>.\<close>

definition index :: "'a list \<Rightarrow> nat \<Rightarrow> panic + 'a" where
  "index xs i = (if i < length xs then Inr (xs ! i) else Inl IndexOutOfRange)"

text \<open>The body of the loop of the \<^verbatim>\<open>NETWORK\<close> branch, on \<open>arr\<close> and the local \<open>remote\<close>.\<close>

definition networkAttr ::
  "golib \<Rightarrow> string \<Rightarrow> string \<times> bval \<Rightarrow> string list \<times> Remote \<Rightarrow> panic + (string list \<times> Remote)"
where
  "networkAttr L msg attr st =
     (case attr of (k, v) \<Rightarrow> case st of (arr, remote) \<Rightarrow>
        if k = ''remote'' then
          (case v of
             VString s \<Rightarrow>
               (let toks = strings_Split s CHR '':'' in
                case index toks 0 of Inl p \<Rightarrow> Inl p | Inr t0 \<Rightarrow>
               (case index toks 1 of Inl p \<Rightarrow> Inl p | Inr t1 \<Rightarrow>
               (let remote = remote\<lparr>Value := t0, Port := t1\<rparr> in
                if msg = ''Connection ended''
                then Inr (arr @ [fmtV L v], remote\<lparr>Ended := 1\<rparr>)
                else Inr (arr @ [''from '' @ fmtV L v], remote\<lparr>Accepted := 1\<rparr>))))
           | _ \<Rightarrow> Inl TypeAssertion)
        else if k = ''client'' then Inr (arr @ [fmtV L v @ '':''], remote)
        else if k = ''connectionId'' \<and> msg \<noteq> ''Connection ended''
          then Inr (arr @ [''#'' @ fmtV L v], remote)
        else if k = ''connectionCount''
          then Inr (arr @ [''('' @ fmtV L v @ '' connections now open)''],
                    remote\<lparr>Conns := toInt L v\<rparr>)
        else if k = ''doc'' then Inr (arr @ [MarshalExtJSON L v], remote)
        else Inr (arr, remote))"

fun networkLoop ::
  "golib \<Rightarrow> string \<Rightarrow> (string \<times> bval) list \<Rightarrow> string list \<times> Remote \<Rightarrow> panic + (string list \<times> Remote)"
where
  "networkLoop L msg [] st = Inr st"
| "networkLoop L msg (attr # rest) st =
     (case networkAttr L msg attr st of
        Inl p \<Rightarrow> Inl p
      | Inr st' \<Rightarrow> networkLoop L msg rest st')"

text \<open>The body of the loop of the last branch, on \<open>arr\<close> and the lines logged so far.\<close>

definition defaultAttr ::
  "golib \<Rightarrow> string \<times> bval \<Rightarrow> string list \<times> diag list \<Rightarrow> panic + (string list \<times> diag list)"
where
  "defaultAttr L attr st =
     (case attr of (k, v) \<Rightarrow> case st of (arr, lg) \<Rightarrow>
        if k = ''type'' \<or> k = ''ns'' then
          (case v of
             VString str \<Rightarrow> Inr (arr @ [str], lg)
           | _ \<Rightarrow> Inl TypeAssertion)
        else if k = ''durationMillis'' then Inr (arr @ [fmtV L v @ ''ms''], lg)
        else
          (case toLegacyString L v of
             Inl p \<Rightarrow> Inl p
           | Inr (val, lg') \<Rightarrow> Inr (arr @ [k @ '':'' @ fmtV L val], lg @ lg')))"

fun defaultLoop ::
  "golib \<Rightarrow> (string \<times> bval) list \<Rightarrow> string list \<times> diag list \<Rightarrow> panic + (string list \<times> diag list)"
where
  "defaultLoop L [] st = Inr st"
| "defaultLoop L (attr # rest) st =
     (case defaultAttr L attr st of
        Inl p \<Rightarrow> Inl p
      | Inr st' \<Rightarrow> defaultLoop L rest st')"

text \<open>\<^verbatim>\<open>Remote{}\<close>.\<close>

definition zeroRemote :: Remote where
  "zeroRemote = \<lparr>Value = [], Port = [], Accepted = 0, Ended = 0, Conns = 0\<rparr>"

text \<open>
  Lines 18 to 89: the tokens \<open>arr\<close>, the record (with \<open>Remote\<close> set where the
  \<^verbatim>\<open>NETWORK\<close> branch sets it) and the lines logged.
\<close>

definition legacyTokens ::
  "golib \<Rightarrow> 'a Logv2Info_scheme \<Rightarrow> panic + (string list \<times> 'a Logv2Info_scheme \<times> diag list)"
where
  "legacyTokens L doc =
     (let attrMap = Map_of_D (Attr doc);
          arr = msgTokens (Msg doc)
      in
      if Component doc = ''CONTROL'' \<and> attrMap ''host'' \<noteq> VNil then
        Inr (arr @ [''pid='' @ fmtV L (attrMap ''pid'') @ '' port='' @ fmtV L (attrMap ''port'')
                    @ '' '' @ fmtV L (attrMap ''architecture'')
                    @ '' host='' @ fmtV L (attrMap ''host'')], doc, [])
      else if Component doc = ''ACCESS'' then
        Inr (accessLoop L (Attr doc) arr, doc, [])
      else if Component doc = ''NETWORK'' then
        (case networkLoop L (Msg doc) (Attr doc) (arr, zeroRemote) of
           Inl p \<Rightarrow> Inl p
         | Inr (arr', remote) \<Rightarrow>
             Inr (arr', if Value remote \<noteq> [] then doc\<lparr>Remote := Some remote\<rparr> else doc, []))
      else
        (case defaultLoop L (Attr doc) (arr, []) of
           Inl p \<Rightarrow> Inl p
         | Inr (arr', lg) \<Rightarrow> Inr (arr', doc, lg)))"

text \<open>
  The whole function: the returned \<^verbatim>\<open>error\<close> (\<open>None\<close> is nil), the record as the call
  leaves it, and the lines logged.
\<close>

type_synonym go_error = string

definition AddLegacyString ::
  "golib \<Rightarrow> 'a Logv2Info_scheme \<Rightarrow> panic + (go_error option \<times> 'a Logv2Info_scheme \<times> diag list)"
where
  "AddLegacyString L doc =
     (let err = None in
      case legacyTokens L doc of
        Inl p \<Rightarrow> Inl p
      | Inr (arr, doc', lg) \<Rightarrow>
          if length arr = 0 then Inr (None, doc', lg)
          else Inr (err, doc'\<lparr>Message := strings_Join arr '' ''\<rparr>, lg))"

section \<open>Notions the properties are stated with\<close>

text \<open>
  Modelled from the spec: \<^verbatim>\<open>ToInt\<close>, a helper of the package that \<^verbatim>\<open>legacy.go\<close>
  calls and does not define. The spec says of it only that \<^verbatim>\<open>Conns\<close> is the "current
  open-connection count, parsed from a \<^verbatim>\<open>connectionCount\<close> attribute if present; 0
  otherwise": an integer value is read as the number it holds. No property below looks at
  what it returns for a value that is not an integer.
\<close>

definition ToInt :: "bval \<Rightarrow> int" where
  "ToInt v = (case v of VInt i \<Rightarrow> i | _ \<Rightarrow> 0)"

text \<open>
  A library instance for the closed examples; none of them reaches \<open>fmtOther\<close> or
  \<open>MarshalExtJSON\<close>.
\<close>

definition exampleLib :: golib where
  "exampleLib = \<lparr>fmtOther = (\<lambda>_. []), MarshalExtJSON = (\<lambda>_. []), toInt = ToInt\<rparr>"

text \<open>
  The text a caller prints for a value, \<^verbatim>\<open>fmt.Sprintf("%v", toLegacyString(v))\<close>:
  \<open>None\<close> when the call panics.
\<close>

definition render :: "golib \<Rightarrow> bval \<Rightarrow> string option" where
  "render L v = (case toLegacyString L v of Inl p \<Rightarrow> None | Inr (x, lg) \<Rightarrow> Some (fmtV L x))"

text \<open>
  The layout of a document as the spec words it, on keys paired with rendered values:
  \<^verbatim>\<open>k1:v1, k2:v2\<close> between \<^verbatim>\<open> { \<close> and \<^verbatim>\<open> }\<close>.
\<close>

fun entriesText :: "(string \<times> string) list \<Rightarrow> string" where
  "entriesText [] = []"
| "entriesText [(k, r)] = k @ '':'' @ r"
| "entriesText ((k, r) # e # es) = k @ '':'' @ r @ '', '' @ entriesText (e # es)"

definition documentText :: "(string \<times> string) list \<Rightarrow> string" where
  "documentText es = '' { '' @ entriesText es @ '' }''"

text \<open>The host portion of an address: the text before the first colon.\<close>

definition hostPart :: "string \<Rightarrow> string" where
  "hostPart s = takeWhile (\<lambda>c. c \<noteq> CHR '':'') s"

text \<open>The value of the last attribute keyed \<^verbatim>\<open>remote\<close>, if there is one.\<close>

definition lastRemote :: "(string \<times> bval) list \<Rightarrow> bval option" where
  "lastRemote attrs =
     (let rs = filter (\<lambda>a. fst a = ''remote'') attrs
      in if rs = [] then None else Some (snd (last rs)))"

section \<open>Evaluation lemmas\<close>

lemma decimal_digit: "n < 10 \<Longrightarrow> decimal n = [digit n]"
  by (simp add: decimal.simps)

lemma length_hex: "length (hex_EncodeToString dat) = 2 * length dat"
  by (induction dat) (simp_all add: hex_EncodeToString_def)

lemma uuidText_short: "length x < 20 \<Longrightarrow> uuidText x = Inl SliceOutOfRange"
  by (auto simp add: uuidText_def slice_def)

lemma uuidText_long: "20 \<le> length x \<Longrightarrow> \<exists>s. uuidText x = Inr s"
  by (simp add: uuidText_def slice_def)

section \<open>Library lemmas\<close>

lemma strings_Split_nonempty: "strings_Split s c \<noteq> []"
  by (induction s) (auto split: list.splits)

lemma length_strings_Split: "length (strings_Split s c) = count_list s c + 1"
  by (induction s) (auto split: list.splits simp: strings_Split_nonempty)

lemma hd_strings_Split: "hd (strings_Split s c) = takeWhile (\<lambda>x. x \<noteq> c) s"
  by (induction s) (auto split: list.splits simp: strings_Split_nonempty)

lemma strings_Split_prefix:
  "c \<notin> set h \<Longrightarrow> strings_Split (h @ c # t) c = h # strings_Split t c"
  by (induction h) (auto split: list.splits simp: strings_Split_nonempty)

lemma strings_Split_none: "c \<notin> set s \<Longrightarrow> strings_Split s c = [s]"
  by (induction s) (auto split: list.splits)

lemma count_list_pos: "0 < count_list s c \<longleftrightarrow> c \<in> set s"
  by (induction s) auto

lemma strings_Split_one:
  assumes "count_list s c = 1"
  shows "\<exists>h p. strings_Split s c = [h, p] \<and> s = h @ c # p"
proof -
  from assms have "c \<in> set s" using count_list_pos [of s c] by simp
  then obtain h p where s: "s = h @ c # p" and h: "c \<notin> set h"
    by (auto dest: split_list_first)
  from assms s h have "count_list p c = 0" by (simp add: count_list_0_iff)
  then have "c \<notin> set p" by (simp add: count_list_0_iff)
  with s h have "strings_Split s c = [h, p]"
    by (simp add: strings_Split_prefix strings_Split_none)
  with s show ?thesis by blast
qed

lemma strings_Index_neg: "strings_Index s c < 0 \<longleftrightarrow> c \<notin> set s"
  by (induction s) (auto simp: Let_def)

lemma strings_Index_pos: "0 < strings_Index s c \<longleftrightarrow> c \<in> set s \<and> hd s \<noteq> c"
proof (cases s)
  case Nil
  then show ?thesis by simp
next
  case (Cons x xs)
  then show ?thesis using strings_Index_neg [of xs c] by (auto simp: Let_def)
qed

lemma join_entries:
  "strings_Join (map (\<lambda>(k, t). k @ '':'' @ t) es) '', '' = entriesText es"
  by (induction es rule: entriesText.induct) simp_all

section \<open>Lemmas on the serializer\<close>

lemma render_Some:
  "render L v = Some t \<longleftrightarrow> (\<exists>x lg. toLegacyString L v = Inr (x, lg) \<and> t = fmtV L x)"
  by (auto simp: render_def split: sum.splits)

lemma docEntries_render:
  "list_all (\<lambda>(k, v). render L v \<noteq> None) d \<Longrightarrow>
     \<exists>lg. docEntries L d = Inr (map (\<lambda>(k, v). k @ '':'' @ the (render L v)) d, lg)"
proof (induction d)
  case Nil
  then show ?case by simp
next
  case (Cons a d)
  obtain k v where a: "a = (k, v)" by (cases a)
  from Cons.prems a obtain x lg where v: "toLegacyString L v = Inr (x, lg)"
    by (auto simp: render_def split: sum.splits)
  then have r: "the (render L v) = fmtV L x" by (simp add: render_def)
  from Cons obtain lg' where
    "docEntries L d = Inr (map (\<lambda>(k, v). k @ '':'' @ the (render L v)) d, lg')"
    by auto
  with v r show ?case by (simp add: a)
qed

lemma docEntries_panics:
  "\<not> list_all (\<lambda>(k, v). render L v \<noteq> None) d \<Longrightarrow> \<exists>p. docEntries L d = Inl p"
proof (induction d)
  case Nil
  then show ?case by simp
next
  case (Cons a d)
  obtain k v where a: "a = (k, v)" by (cases a)
  show ?case
  proof (cases "render L v")
    case None
    then show ?thesis by (auto simp: a render_def split: sum.splits)
  next
    case (Some t)
    with Cons.prems a have "\<not> list_all (\<lambda>(k, v). render L v \<noteq> None) d" by simp
    from Cons.IH [OF this] obtain p where "docEntries L d = Inl p" ..
    then show ?thesis by (auto simp: a split: sum.splits)
  qed
qed

section \<open>Lemmas on the loop of the NETWORK branch\<close>

lemma networkLoop_append:
  "networkLoop L msg (xs @ ys) st =
     (case networkLoop L msg xs st of Inl p \<Rightarrow> Inl p | Inr st' \<Rightarrow> networkLoop L msg ys st')"
  by (induction xs arbitrary: st) (auto split: sum.splits)

lemma networkAttr_remote:
  assumes "networkAttr L msg (''remote'', v) (arr, r) = Inr (arr', r')"
  shows "\<exists>s. v = VString s \<and> CHR '':'' \<in> set s
           \<and> Value r' = hostPart s \<and> Port r' = strings_Split s CHR '':'' ! 1
           \<and> Conns r' = Conns r
           \<and> (if msg = ''Connection ended''
               then arr' = arr @ [s] \<and> Ended r' = 1 \<and> Accepted r' = Accepted r
               else arr' = arr @ [''from '' @ s] \<and> Accepted r' = 1 \<and> Ended r' = Ended r)"
proof -
  from assms obtain s where v: "v = VString s"
    by (cases v) (auto simp: networkAttr_def)
  from assms v have len: "1 < length (strings_Split s CHR '':'')"
    by (auto simp: networkAttr_def index_def Let_def split: if_splits)
  then have colon: "CHR '':'' \<in> set s"
    by (simp add: length_strings_Split count_list_pos)
  have h: "strings_Split s CHR '':'' ! 0 = hostPart s"
    using hd_strings_Split [of s "CHR '':''"] strings_Split_nonempty [of s "CHR '':''"]
    by (simp add: hostPart_def hd_conv_nth)
  show ?thesis
    using assms v len colon h
    by (auto simp: networkAttr_def index_def Let_def fmtV_def split: if_splits)
qed

lemma networkAttr_remote_ok:
  assumes "CHR '':'' \<in> set s"
  shows "\<exists>st'. networkAttr L msg (''remote'', VString s) st = Inr st'"
proof -
  have "1 < length (strings_Split s CHR '':'')"
    using assms by (simp add: length_strings_Split count_list_pos)
  then show ?thesis
    by (cases st) (auto simp add: networkAttr_def index_def Let_def)
qed

lemma networkAttr_other:
  assumes "k \<noteq> ''remote''"
  shows "\<exists>arr' r'. networkAttr L msg (k, v) (arr, r) = Inr (arr', r')
           \<and> Value r' = Value r \<and> Port r' = Port r
           \<and> Accepted r' = Accepted r \<and> Ended r' = Ended r"
  using assms by (simp add: networkAttr_def)

lemma lastRemote_snoc:
  "lastRemote (xs @ [(k, v)]) = (if k = ''remote'' then Some v else lastRemote xs)"
  by (simp add: lastRemote_def)

lemma networkLoop_last:
  "networkLoop L msg attrs (arr, r) = Inr (arr', r') \<Longrightarrow>
     (case lastRemote attrs of
        None \<Rightarrow> Value r' = Value r \<and> Port r' = Port r
                 \<and> Accepted r' = Accepted r \<and> Ended r' = Ended r
      | Some v \<Rightarrow>
          (\<exists>s. v = VString s \<and> CHR '':'' \<in> set s
              \<and> Value r' = hostPart s \<and> Port r' = strings_Split s CHR '':'' ! 1
              \<and> (if msg = ''Connection ended''
                  then Ended r' = 1 \<and> Accepted r' = Accepted r
                  else Accepted r' = 1 \<and> Ended r' = Ended r)))"
proof (induction attrs arbitrary: arr' r' rule: rev_induct)
  case Nil
  then show ?case by (simp add: lastRemote_def)
next
  case (snoc a attrs)
  obtain k v where a: "a = (k, v)" by (cases a)
  from snoc.prems obtain arr1 r1 where
    loop: "networkLoop L msg attrs (arr, r) = Inr (arr1, r1)" and
    step: "networkAttr L msg (k, v) (arr1, r1) = Inr (arr', r')"
    by (auto simp: networkLoop_append a split: sum.splits)
  show ?case
  proof (cases "k = ''remote''")
    case True
    with step networkAttr_remote [of L msg v arr1 r1 arr' r'] snoc.IH [OF loop] show ?thesis
      by (auto simp: a lastRemote_snoc split: if_splits option.splits)
  next
    case False
    with step networkAttr_other [of k L msg v arr1 r1]
    have same: "Value r' = Value r1" "Port r' = Port r1"
      "Accepted r' = Accepted r1" "Ended r' = Ended r1"
      by auto
    from snoc.IH [OF loop] False same show ?thesis
      by (auto simp: a lastRemote_snoc split: option.splits)
  qed
qed

lemma networkLoop_total:
  "(\<forall>(k, v) \<in> set attrs. k = ''remote'' \<longrightarrow> (\<exists>s. v = VString s \<and> CHR '':'' \<in> set s))
     \<Longrightarrow> \<exists>st'. networkLoop L msg attrs st = Inr st'"
proof (induction attrs arbitrary: st)
  case Nil
  then show ?case by simp
next
  case (Cons a attrs)
  obtain k v where a: "a = (k, v)" by (cases a)
  obtain arr r where st: "st = (arr, r)" by (cases st)
  have "\<exists>st1. networkAttr L msg (k, v) st = Inr st1"
  proof (cases "k = ''remote''")
    case True
    with Cons.prems a obtain s where "v = VString s" "CHR '':'' \<in> set s" by auto
    with True networkAttr_remote_ok [of s L msg st] show ?thesis by simp
  next
    case False
    with networkAttr_other [of k L msg v arr r] st show ?thesis by auto
  qed
  then obtain st1 where "networkAttr L msg (k, v) st = Inr st1" ..
  moreover from Cons.prems have
    "\<forall>(k, v) \<in> set attrs. k = ''remote'' \<longrightarrow> (\<exists>s. v = VString s \<and> CHR '':'' \<in> set s)"
    by simp
  from Cons.IH [OF this, of st1] obtain st' where "networkLoop L msg attrs st1 = Inr st'" ..
  ultimately show ?case by (simp add: a)
qed

lemma networkLoop_skip_connectionId:
  "networkLoop L ''Connection ended'' (filter (\<lambda>a. fst a \<noteq> ''connectionId'') attrs) st
     = networkLoop L ''Connection ended'' attrs st"
proof (induction attrs arbitrary: st)
  case Nil
  then show ?case by simp
next
  case (Cons a attrs)
  show ?case
  proof (cases "fst a = ''connectionId''")
    case True
    then have "networkAttr L ''Connection ended'' a st = Inr st"
      by (cases a; cases st) (simp add: networkAttr_def)
    with True Cons.IH show ?thesis by simp
  next
    case False
    with Cons.IH show ?thesis by (simp split: sum.splits)
  qed
qed

section \<open>Lemmas on AddLegacyString\<close>

lemma AddLegacyString_network:
  "Component doc = ''NETWORK'' \<Longrightarrow>
   AddLegacyString L doc =
     (case networkLoop L (Msg doc) (Attr doc) (msgTokens (Msg doc), zeroRemote) of
        Inl p \<Rightarrow> Inl p
      | Inr (arr, remote) \<Rightarrow>
          Inr (None,
               (if arr = [] then (if Value remote \<noteq> [] then doc\<lparr>Remote := Some remote\<rparr> else doc)
                else (if Value remote \<noteq> [] then doc\<lparr>Remote := Some remote\<rparr> else doc)
                       \<lparr>Message := strings_Join arr '' ''\<rparr>),
               []))"
  by (simp add: AddLegacyString_def legacyTokens_def split: sum.splits prod.splits)

lemma legacyTokens_frame:
  "legacyTokens L doc = Inr (arr, doc1, lg) \<Longrightarrow>
     Component doc1 = Component doc \<and> Msg doc1 = Msg doc \<and> Attr doc1 = Attr doc
     \<and> Message doc1 = Message doc \<and> Logv2Info.more doc1 = Logv2Info.more doc
     \<and> (Component doc \<noteq> ''NETWORK'' \<longrightarrow> doc1 = doc)"
  by (auto simp: legacyTokens_def Let_def split: if_splits sum.splits prod.splits)

lemma AddLegacyString_other:
  assumes "Component doc \<noteq> ''NETWORK''" and "AddLegacyString L doc = Inr (e, doc', lg)"
  shows "Remote doc' = Remote doc"
proof -
  from assms(2) obtain arr doc1 where tk: "legacyTokens L doc = Inr (arr, doc1, lg)"
    and d': "doc' = doc1 \<or> doc' = doc1\<lparr>Message := strings_Join arr '' ''\<rparr>"
    by (auto simp: AddLegacyString_def split: sum.splits prod.splits if_splits)
  from legacyTokens_frame [OF tk] assms(1) have "doc1 = doc" by simp
  with d' show ?thesis by auto
qed

section \<open>The serializer\<close>

text \<open>
  C1, as the code has it. A document one of whose entry values makes the serializer
  panic is not rendered at all. A document whose entry values all render is rendered as
  \<^verbatim>\<open> { k1:r(v1), k2:r(v2), ... }\<close>: a space and the opening brace, one space inside
  each brace, the entries joined by a comma and a space, and nothing after the closing
  brace. Every key is written as it is, also one that contains a dot. Quotes around a key
  are written only for a single element (\<^verbatim>\<open>bson.E\<close>) passed as a value, which renders as
  \<^verbatim>\<open> { "k":r(v) } \<close> when its key contains a dot and does not start with one, and as
  \<^verbatim>\<open> { k:r(v) } \<close> when its key contains no dot.
\<close>

theorem C1_document_layout:
  "(list_all (\<lambda>(k, v). render L v \<noteq> None) d \<longrightarrow>
      render L (VDoc d) = Some (documentText (map (\<lambda>(k, v). (k, the (render L v))) d)))
   \<and> (\<not> list_all (\<lambda>(k, v). render L v \<noteq> None) d \<longrightarrow> render L (VDoc d) = None)
   \<and> (render L v = Some t \<and> CHR ''.'' \<in> set k \<and> hd k \<noteq> CHR ''.'' \<longrightarrow>
        render L (VElem k v) = Some ('' { '' @ [CHR 0x22] @ k @ [CHR 0x22] @ '':'' @ t @ '' } ''))
   \<and> (render L v = Some t \<and> CHR ''.'' \<notin> set k \<longrightarrow>
        render L (VElem k v) = Some ('' { '' @ k @ '':'' @ t @ '' } ''))"
proof (intro conjI)
  show "list_all (\<lambda>(k, v). render L v \<noteq> None) d \<longrightarrow>
      render L (VDoc d) = Some (documentText (map (\<lambda>(k, v). (k, the (render L v))) d))"
  proof
    assume "list_all (\<lambda>(k, v). render L v \<noteq> None) d"
    from docEntries_render [OF this] obtain lg where
      "docEntries L d = Inr (map (\<lambda>(k, v). k @ '':'' @ the (render L v)) d, lg)" ..
    then have tls: "toLegacyString L (VDoc d)
        = Inr (VString ('' { '' @ strings_Join (map (\<lambda>(k, v). k @ '':'' @ the (render L v)) d) '', ''
                        @ '' }''), lg)"
      by simp
    have "map (\<lambda>(k, v). k @ '':'' @ the (render L v)) d
        = map (\<lambda>(k, t). k @ '':'' @ t) (map (\<lambda>(k, v). (k, the (render L v))) d)"
      by (simp add: case_prod_unfold)
    then have "strings_Join (map (\<lambda>(k, v). k @ '':'' @ the (render L v)) d) '', ''
        = entriesText (map (\<lambda>(k, v). (k, the (render L v))) d)"
      by (simp only: join_entries)
    with tls show
      "render L (VDoc d) = Some (documentText (map (\<lambda>(k, v). (k, the (render L v))) d))"
      by (simp add: render_Some fmtV_def documentText_def)
  qed
next
  show "\<not> list_all (\<lambda>(k, v). render L v \<noteq> None) d \<longrightarrow> render L (VDoc d) = None"
    using docEntries_panics [of L d] by (auto simp: render_def)
next
  show "render L v = Some t \<and> CHR ''.'' \<in> set k \<and> hd k \<noteq> CHR ''.'' \<longrightarrow>
        render L (VElem k v) = Some ('' { '' @ [CHR 0x22] @ k @ [CHR 0x22] @ '':'' @ t @ '' } '')"
    using strings_Index_pos [of k "CHR ''.''"]
    by (auto simp: render_def fmtV_def split: sum.splits)
next
  show "render L v = Some t \<and> CHR ''.'' \<notin> set k \<longrightarrow>
        render L (VElem k v) = Some ('' { '' @ k @ '':'' @ t @ '' } '')"
    using strings_Index_pos [of k "CHR ''.''"]
    by (auto simp: render_def fmtV_def split: sum.splits)
qed

text \<open>C1 on a document with a dotted key, and on two single elements.\<close>

theorem C1_witness:
  "list_all (\<lambda>(k, v). render exampleLib v \<noteq> None) [(''a.b'', VInt 1), (''c'', VString ''x'')]
   \<and> render exampleLib (VDoc [(''a.b'', VInt 1), (''c'', VString ''x'')])
       = Some ('' { a.b:1, c: '' @ [CHR 0x22] @ ''x'' @ [CHR 0x22] @ '' }'')
   \<and> render exampleLib (VInt 1) = Some ''1''
   \<and> render exampleLib (VElem ''a.b'' (VInt 1))
       = Some ('' { '' @ [CHR 0x22] @ ''a.b'' @ [CHR 0x22] @ '':1 } '')
   \<and> render exampleLib (VElem ''c'' (VInt 1)) = Some '' { c:1 } ''"
proof -
  have r1: "render exampleLib (VInt 1) = Some ''1''"
    by (simp add: render_def fmtV_def itoa_def decimal_digit digit_def)
  have r2: "render exampleLib (VString ''x'') = Some ('' '' @ [CHR 0x22] @ ''x'' @ [CHR 0x22])"
    by (simp add: render_def fmtV_def)
  have all: "list_all (\<lambda>(k, v). render exampleLib v \<noteq> None)
      [(''a.b'', VInt 1), (''c'', VString ''x'')]"
    by (simp add: r1 r2)
  from C1_document_layout [of exampleLib "[(''a.b'', VInt 1), (''c'', VString ''x'')]"
      "VInt 1" "''1''" "''a.b''"]
    C1_document_layout [of exampleLib "[]" "VInt 1" "''1''" "''c''"]
    all r1 r2
  show ?thesis by (simp add: documentText_def)
qed

text \<open>
  C1, as the claim words it, fails: the document with the one entry \<^verbatim>\<open>a.b:1\<close> renders
  as \<^verbatim>\<open> { a.b:1 }\<close>, with no quote anywhere and no space after the closing brace.
\<close>

theorem C1_counterexample:
  "toLegacyString exampleLib (VDoc [(''a.b'', VInt 1)]) = Inr (VString '' { a.b:1 }'', [])
   \<and> CHR 0x22 \<notin> set '' { a.b:1 }''"
  by (simp add: fmtV_def itoa_def decimal_digit digit_def)

text \<open>
  C10. A binary value of subtype 4 whose payload has fewer than 10 bytes makes
  \<open>toLegacyString\<close> panic on a slice out of range, with no rendering and no line logged;
  from 10 bytes on it returns a string. So the function is not total.
\<close>

theorem C10_uuid_short_payload:
  "(length dat < 10 \<longrightarrow> toLegacyString L (VBinary 4 dat) = Inl SliceOutOfRange)
   \<and> (10 \<le> length dat \<longrightarrow> (\<exists>s. toLegacyString L (VBinary 4 dat) = Inr (VString s, [])))"
proof (intro conjI impI)
  assume "length dat < 10"
  then have "length (hex_EncodeToString dat) < 20" by (simp add: length_hex)
  then show "toLegacyString L (VBinary 4 dat) = Inl SliceOutOfRange"
    by (simp add: uuidText_short)
next
  assume "10 \<le> length dat"
  then have "20 \<le> length (hex_EncodeToString dat)" by (simp add: length_hex)
  then obtain s where "uuidText (hex_EncodeToString dat) = Inr s"
    using uuidText_long by blast
  then show "\<exists>s. toLegacyString L (VBinary 4 dat) = Inr (VString s, [])" by simp
qed

text \<open>C10 on a payload of 4 bytes and on one of 16.\<close>

theorem C10_witness:
  "length [0x00, 0x11, 0x22, 0x33 :: byte] < 10
   \<and> toLegacyString exampleLib (VBinary 4 [0x00, 0x11, 0x22, 0x33]) = Inl SliceOutOfRange
   \<and> 10 \<le> length [0x00, 0x11, 0x22, 0x33, 0x44, 0x55, 0x66, 0x77, 0x88, 0x99, 0xaa, 0xbb, 0xcc, 0xdd, 0xee, 0xff :: byte]
   \<and> (\<exists>s. toLegacyString exampleLib (VBinary 4 [0x00, 0x11, 0x22, 0x33, 0x44, 0x55, 0x66, 0x77, 0x88, 0x99, 0xaa, 0xbb, 0xcc, 0xdd, 0xee, 0xff]) = Inr (VString s, []))"
  using C10_uuid_short_payload [of "[0x00, 0x11, 0x22, 0x33]" exampleLib]
    C10_uuid_short_payload [of "[0x00, 0x11, 0x22, 0x33, 0x44, 0x55, 0x66, 0x77, 0x88, 0x99, 0xaa, 0xbb, 0xcc, 0xdd, 0xee, 0xff]" exampleLib]
  by simp

section \<open>The Remote artifact\<close>

text \<open>
  C2, as the code has it. When the call returns: if the Component is \<^verbatim>\<open>NETWORK\<close> and the
  last attribute keyed \<^verbatim>\<open>remote\<close> is a string whose host portion (the text before the
  first colon) is not empty, a Remote with that host as Value is attached to the record;
  in every other case the Remote field is left as it was.
\<close>

theorem C2_remote_attached:
  assumes "AddLegacyString L doc = Inr (e, doc', lg)"
  shows "if Component doc = ''NETWORK''
            \<and> (\<exists>s. lastRemote (Attr doc) = Some (VString s) \<and> hostPart s \<noteq> [])
         then \<exists>r s. Remote doc' = Some r \<and> lastRemote (Attr doc) = Some (VString s)
                \<and> Value r = hostPart s
         else Remote doc' = Remote doc"
proof (cases "Component doc = ''NETWORK''")
  case False
  with AddLegacyString_other [OF False assms] show ?thesis by simp
next
  case True
  from assms obtain arr remote where
    loop: "networkLoop L (Msg doc) (Attr doc) (msgTokens (Msg doc), zeroRemote) = Inr (arr, remote)"
    and rem: "Remote doc' = (if Value remote \<noteq> [] then Some remote else Remote doc)"
    by (auto simp: AddLegacyString_network [OF True] split: sum.splits prod.splits if_splits)
  show ?thesis
  proof (cases "lastRemote (Attr doc)")
    case None
    with networkLoop_last [OF loop] have "Value remote = []" by (simp add: zeroRemote_def)
    with None rem True show ?thesis by simp
  next
    case (Some v)
    with networkLoop_last [OF loop] obtain s where
      "v = VString s" "Value remote = hostPart s" by auto
    with Some rem True show ?thesis by auto
  qed
qed

text \<open>C2 on a \<^verbatim>\<open>NETWORK\<close> record with one \<^verbatim>\<open>remote\<close> attribute.\<close>

theorem C2_witness:
  "AddLegacyString exampleLib
     \<lparr>Component = ''NETWORK'', Msg = ''Connection accepted'',
      Attr = [(''remote'', VString ''10.0.0.5:27017'')], Message = [], Remote = None\<rparr>
   = Inr (None,
     \<lparr>Component = ''NETWORK'', Msg = ''Connection accepted'',
      Attr = [(''remote'', VString ''10.0.0.5:27017'')],
      Message = ''connection accepted from 10.0.0.5:27017'',
      Remote = Some \<lparr>Value = ''10.0.0.5'', Port = ''27017'', Accepted = 1, Ended = 0, Conns = 0\<rparr>\<rparr>, [])
   \<and> lastRemote [(''remote'', VString ''10.0.0.5:27017'')] = Some (VString ''10.0.0.5:27017'')
   \<and> hostPart ''10.0.0.5:27017'' = ''10.0.0.5''"
proof -
  have ev: "AddLegacyString exampleLib
     \<lparr>Component = ''NETWORK'', Msg = ''Connection accepted'',
      Attr = [(''remote'', VString ''10.0.0.5:27017'')], Message = [], Remote = None\<rparr>
   = Inr (None,
     \<lparr>Component = ''NETWORK'', Msg = ''Connection accepted'',
      Attr = [(''remote'', VString ''10.0.0.5:27017'')],
      Message = ''connection accepted from 10.0.0.5:27017'',
      Remote = Some \<lparr>Value = ''10.0.0.5'', Port = ''27017'', Accepted = 1, Ended = 0, Conns = 0\<rparr>\<rparr>, [])"
    by (simp add: AddLegacyString_def legacyTokens_def msgTokens_def Map_of_D_def networkAttr_def
        fmtV_def index_def zeroRemote_def)
  from C2_remote_attached [OF ev] ev show ?thesis
    by (simp add: lastRemote_def hostPart_def)
qed

text \<open>
  C2, as the claim words it, fails twice. A \<^verbatim>\<open>NETWORK\<close> record with two \<^verbatim>\<open>remote\<close>
  attributes, the first with host \<^verbatim>\<open>10.0.0.5\<close> and the second with an empty host, gets no
  Remote; and an \<^verbatim>\<open>ACCESS\<close> record with a \<^verbatim>\<open>remote\<close> attribute of host \<^verbatim>\<open>10.0.0.5\<close>
  gets none either.
\<close>

theorem C2_counterexample:
  "AddLegacyString exampleLib
     \<lparr>Component = ''NETWORK'', Msg = ''Connection accepted'',
      Attr = [(''remote'', VString ''10.0.0.5:27017''), (''remote'', VString '':27018'')],
      Message = [], Remote = None\<rparr>
   = Inr (None,
     \<lparr>Component = ''NETWORK'', Msg = ''Connection accepted'',
      Attr = [(''remote'', VString ''10.0.0.5:27017''), (''remote'', VString '':27018'')],
      Message = ''connection accepted from 10.0.0.5:27017 from :27018'', Remote = None\<rparr>, [])
   \<and> hostPart ''10.0.0.5:27017'' \<noteq> []
   \<and> AddLegacyString exampleLib
     \<lparr>Component = ''ACCESS'', Msg = ''Authentication succeeded'',
      Attr = [(''remote'', VString ''10.0.0.5:27017'')], Message = [], Remote = None\<rparr>
   = Inr (None,
     \<lparr>Component = ''ACCESS'', Msg = ''Authentication succeeded'',
      Attr = [(''remote'', VString ''10.0.0.5:27017'')],
      Message = ''Successfully authenticated from client 10.0.0.5:27017'', Remote = None\<rparr>, [])"
  by (simp add: AddLegacyString_def legacyTokens_def msgTokens_def Map_of_D_def networkAttr_def
      accessAttr_def fmtV_def index_def zeroRemote_def hostPart_def)

text \<open>
  C9. An address \<^verbatim>\<open>h:p:rest\<close>, with no colon in \<open>h\<close> and none in \<open>p\<close>, splits into
  \<open>h\<close>, \<open>p\<close> and the pieces of \<open>rest\<close>; the loop body sets Value to \<open>h\<close> and Port to
  \<open>p\<close> and looks at nothing after; and a \<^verbatim>\<open>NETWORK\<close> record whose last \<^verbatim>\<open>remote\<close>
  attribute is that address with a non-empty \<open>h\<close> (every \<^verbatim>\<open>remote\<close> attribute being a
  string with a colon) gets a Remote with Value \<open>h\<close> and Port \<open>p\<close>.
\<close>

theorem C9_extra_separators:
  "CHR '':'' \<notin> set h \<and> CHR '':'' \<notin> set p \<longrightarrow>
     strings_Split (h @ '':'' @ p @ '':'' @ rest) CHR '':'' = h # p # strings_Split rest CHR '':''
     \<and> (\<exists>arr' r'. networkAttr L msg (''remote'', VString (h @ '':'' @ p @ '':'' @ rest)) (arr, r)
                     = Inr (arr', r') \<and> Value r' = h \<and> Port r' = p)
     \<and> (Component doc = ''NETWORK'' \<and> h \<noteq> []
          \<and> lastRemote (Attr doc) = Some (VString (h @ '':'' @ p @ '':'' @ rest))
          \<and> (\<forall>(k, v) \<in> set (Attr doc). k = ''remote'' \<longrightarrow>
                 (\<exists>s. v = VString s \<and> CHR '':'' \<in> set s))
        \<longrightarrow> (\<exists>e doc' lg x. AddLegacyString L doc = Inr (e, doc', lg)
               \<and> Remote doc' = Some x \<and> Value x = h \<and> Port x = p))"
proof (intro impI, elim conjE)
  assume h: "CHR '':'' \<notin> set h" and p: "CHR '':'' \<notin> set p"
  let ?s = "h @ '':'' @ p @ '':'' @ rest"
  have split: "strings_Split ?s CHR '':'' = h # p # strings_Split rest CHR '':''"
    using h p by (simp add: strings_Split_prefix)
  have host: "hostPart ?s = h"
    using h by (simp add: hostPart_def takeWhile_append)
  have step: "\<exists>arr' r'. networkAttr L msg (''remote'', VString ?s) (arr, r) = Inr (arr', r')
      \<and> Value r' = h \<and> Port r' = p"
    using split by (simp add: networkAttr_def index_def Let_def del: append.simps)
  have rec: "\<exists>e doc' lg x. AddLegacyString L doc = Inr (e, doc', lg)
               \<and> Remote doc' = Some x \<and> Value x = h \<and> Port x = p"
    if a: "Component doc = ''NETWORK'' \<and> h \<noteq> []
          \<and> lastRemote (Attr doc) = Some (VString ?s)
          \<and> (\<forall>(k, v) \<in> set (Attr doc). k = ''remote'' \<longrightarrow>
                 (\<exists>s. v = VString s \<and> CHR '':'' \<in> set s))"
  proof -
    from a networkLoop_total [of "Attr doc" L "Msg doc" "(msgTokens (Msg doc), zeroRemote)"]
    obtain arr1 r1 where
      loop: "networkLoop L (Msg doc) (Attr doc) (msgTokens (Msg doc), zeroRemote) = Inr (arr1, r1)"
      by auto
    from networkLoop_last [OF loop] a have "Value r1 = hostPart ?s"
      and "Port r1 = strings_Split ?s CHR '':'' ! 1"
      by auto
    with host split have "Value r1 = h" "Port r1 = p" by simp_all
    with a loop show ?thesis
      by (simp add: AddLegacyString_network)
  qed
  from split step rec show
    "strings_Split ?s CHR '':'' = h # p # strings_Split rest CHR '':''
     \<and> (\<exists>arr' r'. networkAttr L msg (''remote'', VString ?s) (arr, r)
                     = Inr (arr', r') \<and> Value r' = h \<and> Port r' = p)
     \<and> (Component doc = ''NETWORK'' \<and> h \<noteq> []
          \<and> lastRemote (Attr doc) = Some (VString ?s)
          \<and> (\<forall>(k, v) \<in> set (Attr doc). k = ''remote'' \<longrightarrow>
                 (\<exists>s. v = VString s \<and> CHR '':'' \<in> set s))
        \<longrightarrow> (\<exists>e doc' lg x. AddLegacyString L doc = Inr (e, doc', lg)
               \<and> Remote doc' = Some x \<and> Value x = h \<and> Port x = p))"
    by blast
qed

text \<open>C9 on the address \<^verbatim>\<open>fe80:1:2:27017\<close>.\<close>

theorem C9_witness:
  "strings_Split ''fe80:1:2:27017'' CHR '':'' = [''fe80'', ''1'', ''2'', ''27017'']
   \<and> (\<exists>e doc' lg x. AddLegacyString exampleLib
        \<lparr>Component = ''NETWORK'', Msg = ''Connection accepted'',
         Attr = [(''remote'', VString ''fe80:1:2:27017'')], Message = [], Remote = None\<rparr>
        = Inr (e, doc', lg) \<and> Remote doc' = Some x \<and> Value x = ''fe80'' \<and> Port x = ''1'')"
  using C9_extra_separators [of "''fe80''" "''1''" "''2:27017''" exampleLib
      "''Connection accepted''" "[]" zeroRemote
      "\<lparr>Component = ''NETWORK'', Msg = ''Connection accepted'',
        Attr = [(''remote'', VString ''fe80:1:2:27017'')], Message = [], Remote = None\<rparr>"]
  by (simp add: lastRemote_def)

text \<open>
  C7. For a \<^verbatim>\<open>NETWORK\<close> record whose \<^verbatim>\<open>remote\<close> attributes are all strings with exactly
  one colon, the call returns, with a nil error and nothing logged; such a string splits
  into exactly a host and a port, so both index expressions are in range; and whenever
  the call returns, for any record, the error it returns is nil.
\<close>

theorem C7_remote_never_fails:
  "(Component doc = ''NETWORK''
      \<and> (\<forall>(k, v) \<in> set (Attr doc). k = ''remote'' \<longrightarrow>
             (\<exists>s. v = VString s \<and> count_list s CHR '':'' = 1))
      \<longrightarrow> (\<exists>doc'. AddLegacyString L doc = Inr (None, doc', [])))
   \<and> (count_list s CHR '':'' = 1 \<longrightarrow>
        (\<exists>h p. strings_Split s CHR '':'' = [h, p] \<and> s = h @ '':'' @ p
           \<and> index (strings_Split s CHR '':'') 0 = Inr h
           \<and> index (strings_Split s CHR '':'') 1 = Inr p))
   \<and> (AddLegacyString L d = Inr (e, d', lg) \<longrightarrow> e = None)"
proof (intro conjI impI)
  assume a: "Component doc = ''NETWORK''
      \<and> (\<forall>(k, v) \<in> set (Attr doc). k = ''remote'' \<longrightarrow>
             (\<exists>s. v = VString s \<and> count_list s CHR '':'' = 1))"
  then have "\<forall>(k, v) \<in> set (Attr doc). k = ''remote'' \<longrightarrow>
      (\<exists>s. v = VString s \<and> CHR '':'' \<in> set s)"
    using count_list_pos [of _ "CHR '':''"] by fastforce
  from networkLoop_total [OF this] obtain st' where
    "networkLoop L (Msg doc) (Attr doc) (msgTokens (Msg doc), zeroRemote) = Inr st'" ..
  with a show "\<exists>doc'. AddLegacyString L doc = Inr (None, doc', [])"
    by (cases st') (simp add: AddLegacyString_network)
next
  assume "count_list s CHR '':'' = 1"
  from strings_Split_one [OF this] show
    "\<exists>h p. strings_Split s CHR '':'' = [h, p] \<and> s = h @ '':'' @ p
       \<and> index (strings_Split s CHR '':'') 0 = Inr h
       \<and> index (strings_Split s CHR '':'') 1 = Inr p"
    by (auto simp: index_def)
next
  assume "AddLegacyString L d = Inr (e, d', lg)"
  then show "e = None"
    by (auto simp: AddLegacyString_def split: sum.splits prod.splits if_splits)
qed

text \<open>C7 on a \<^verbatim>\<open>NETWORK\<close> record with the address \<^verbatim>\<open>10.0.0.5:27017\<close>.\<close>

theorem C7_witness:
  "AddLegacyString exampleLib
      \<lparr>Component = ''NETWORK'', Msg = ''Connection accepted'',
       Attr = [(''remote'', VString ''10.0.0.5:27017''), (''client'', VString ''conn4'')],
       Message = [], Remote = None\<rparr>
   = Inr (None,
      \<lparr>Component = ''NETWORK'', Msg = ''Connection accepted'',
       Attr = [(''remote'', VString ''10.0.0.5:27017''), (''client'', VString ''conn4'')],
       Message = ''connection accepted from 10.0.0.5:27017 conn4:'',
       Remote = Some \<lparr>Value = ''10.0.0.5'', Port = ''27017'', Accepted = 1, Ended = 0, Conns = 0\<rparr>\<rparr>,
      [])
   \<and> strings_Split ''10.0.0.5:27017'' CHR '':'' = [''10.0.0.5'', ''27017'']
   \<and> count_list ''10.0.0.5:27017'' CHR '':'' = 1"
  using C7_remote_never_fails [where L = exampleLib and s = "''10.0.0.5:27017''"
      and doc = "\<lparr>Component = ''NETWORK'', Msg = ''Connection accepted'',
        Attr = [(''remote'', VString ''10.0.0.5:27017''), (''client'', VString ''conn4'')],
        Message = [], Remote = None\<rparr>"
      and d = "\<lparr>Component = ''NETWORK'', Msg = ''Connection accepted'',
        Attr = [(''remote'', VString ''10.0.0.5:27017''), (''client'', VString ''conn4'')],
        Message = [], Remote = None\<rparr>"
      and e = None
      and d' = "\<lparr>Component = ''NETWORK'', Msg = ''Connection accepted'',
        Attr = [(''remote'', VString ''10.0.0.5:27017''), (''client'', VString ''conn4'')],
        Message = ''connection accepted from 10.0.0.5:27017 conn4:'',
        Remote = Some \<lparr>Value = ''10.0.0.5'', Port = ''27017'', Accepted = 1, Ended = 0, Conns = 0\<rparr>\<rparr>"
      and lg = "[]"]
  by (simp add: AddLegacyString_def legacyTokens_def msgTokens_def Map_of_D_def networkAttr_def
      fmtV_def index_def zeroRemote_def)

section \<open>The scenarios\<close>

text \<open>
  C3, as the code has it. For the record with Component \<^verbatim>\<open>NETWORK\<close>, Msg
  \<^verbatim>\<open>Connection accepted\<close> and attributes \<^verbatim>\<open>remote:"127.0.0.1:54321"\<close> then
  \<^verbatim>\<open>connectionId:7\<close>, the call returns a nil error, logs nothing, sets Message to
  \<^verbatim>\<open>connection accepted from 127.0.0.1:54321 #7\<close> (the token of the message comes first)
  and attaches a Remote with Value \<^verbatim>\<open>127.0.0.1\<close>, Port \<^verbatim>\<open>54321\<close>, Accepted 1, Ended 0
  and Conns 0, whatever the library and the other fields of the record.
\<close>

theorem C3_network_accepted:
  "AddLegacyString L
     \<lparr>Component = ''NETWORK'', Msg = ''Connection accepted'',
      Attr = [(''remote'', VString ''127.0.0.1:54321''), (''connectionId'', VInt 7)],
      Message = m, Remote = r, \<dots> = z\<rparr>
   = Inr (None,
     \<lparr>Component = ''NETWORK'', Msg = ''Connection accepted'',
      Attr = [(''remote'', VString ''127.0.0.1:54321''), (''connectionId'', VInt 7)],
      Message = ''connection accepted from 127.0.0.1:54321 #7'',
      Remote = Some \<lparr>Value = ''127.0.0.1'', Port = ''54321'', Accepted = 1, Ended = 0, Conns = 0\<rparr>,
      \<dots> = z\<rparr>, [])"
  by (simp add: AddLegacyString_def legacyTokens_def msgTokens_def Map_of_D_def networkAttr_def
      fmtV_def index_def zeroRemote_def itoa_def decimal_digit digit_def)

text \<open>
  C3, as the claim words it, fails: on that record the Message is not
  \<^verbatim>\<open>from 127.0.0.1:54321 #7\<close>.
\<close>

theorem C3_counterexample:
  "(case AddLegacyString exampleLib
     \<lparr>Component = ''NETWORK'', Msg = ''Connection accepted'',
      Attr = [(''remote'', VString ''127.0.0.1:54321''), (''connectionId'', VInt 7)],
      Message = [], Remote = None\<rparr> of
      Inl p \<Rightarrow> False
    | Inr (e, d, lg) \<Rightarrow>
        Message d = ''connection accepted from 127.0.0.1:54321 #7''
        \<and> Message d \<noteq> ''from 127.0.0.1:54321 #7'')"
  by (simp add: AddLegacyString_def legacyTokens_def msgTokens_def Map_of_D_def networkAttr_def
      fmtV_def index_def zeroRemote_def itoa_def decimal_digit digit_def)

text \<open>
  C4. Under Msg \<^verbatim>\<open>Connection ended\<close>: where the loop body returns on a \<^verbatim>\<open>remote\<close>
  attribute, the value is a string, the token appended is that string as it is, Ended is
  1 and Accepted is untouched; on a \<^verbatim>\<open>connectionId\<close> attribute the body changes nothing;
  for a \<^verbatim>\<open>NETWORK\<close> record, dropping the \<^verbatim>\<open>connectionId\<close> attributes changes nothing of the
  outcome but the Attr field, and a Remote the call attaches has Ended 1 and Accepted 0.
  In particular, with \<^verbatim>\<open>ToInt\<close> as the spec words it, the record with attributes
  \<^verbatim>\<open>remote:"127.0.0.1:54321"\<close> then \<^verbatim>\<open>connectionCount:3\<close> gets the Message
  \<^verbatim>\<open>end connection 127.0.0.1:54321 (3 connections now open)\<close> and a Remote with Ended 1
  and Conns 3.
\<close>

theorem C4_connection_ended:
  "(networkAttr L ''Connection ended'' (''remote'', v) (arr, r) = Inr (arr', r') \<longrightarrow>
      (\<exists>s. v = VString s \<and> arr' = arr @ [s]) \<and> Ended r' = 1 \<and> Accepted r' = Accepted r)
   \<and> networkAttr L ''Connection ended'' (''connectionId'', v) (arr, r) = Inr (arr, r)
   \<and> (Component doc = ''NETWORK'' \<and> Msg doc = ''Connection ended'' \<longrightarrow>
        AddLegacyString L (doc\<lparr>Attr := filter (\<lambda>a. fst a \<noteq> ''connectionId'') (Attr doc)\<rparr>)
        = (case AddLegacyString L doc of
             Inl p \<Rightarrow> Inl p
           | Inr (e, doc', lg) \<Rightarrow>
               Inr (e, doc'\<lparr>Attr := filter (\<lambda>a. fst a \<noteq> ''connectionId'') (Attr doc)\<rparr>, lg)))
   \<and> (Component doc = ''NETWORK'' \<and> Msg doc = ''Connection ended''
        \<and> AddLegacyString L doc = Inr (e, doc', lg) \<longrightarrow>
        Remote doc' = Remote doc \<or> (\<exists>x. Remote doc' = Some x \<and> Ended x = 1 \<and> Accepted x = 0))
   \<and> AddLegacyString (L\<lparr>toInt := ToInt\<rparr>)
        \<lparr>Component = ''NETWORK'', Msg = ''Connection ended'',
         Attr = [(''remote'', VString ''127.0.0.1:54321''), (''connectionCount'', VInt 3)],
         Message = m, Remote = r0, \<dots> = z\<rparr>
      = Inr (None,
        \<lparr>Component = ''NETWORK'', Msg = ''Connection ended'',
         Attr = [(''remote'', VString ''127.0.0.1:54321''), (''connectionCount'', VInt 3)],
         Message = ''end connection 127.0.0.1:54321 (3 connections now open)'',
         Remote = Some \<lparr>Value = ''127.0.0.1'', Port = ''54321'', Accepted = 0, Ended = 1, Conns = 3\<rparr>,
         \<dots> = z\<rparr>, [])"
proof (intro conjI)
  show "networkAttr L ''Connection ended'' (''remote'', v) (arr, r) = Inr (arr', r') \<longrightarrow>
      (\<exists>s. v = VString s \<and> arr' = arr @ [s]) \<and> Ended r' = 1 \<and> Accepted r' = Accepted r"
    using networkAttr_remote [of L "''Connection ended''" v arr r arr' r'] by auto
next
  show "networkAttr L ''Connection ended'' (''connectionId'', v) (arr, r) = Inr (arr, r)"
    by (simp add: networkAttr_def)
next
  show "Component doc = ''NETWORK'' \<and> Msg doc = ''Connection ended'' \<longrightarrow>
        AddLegacyString L (doc\<lparr>Attr := filter (\<lambda>a. fst a \<noteq> ''connectionId'') (Attr doc)\<rparr>)
        = (case AddLegacyString L doc of
             Inl p \<Rightarrow> Inl p
           | Inr (e, doc', lg) \<Rightarrow>
               Inr (e, doc'\<lparr>Attr := filter (\<lambda>a. fst a \<noteq> ''connectionId'') (Attr doc)\<rparr>, lg))"
  proof
  assume a: "Component doc = ''NETWORK'' \<and> Msg doc = ''Connection ended''"
  let ?f = "filter (\<lambda>a. fst a \<noteq> ''connectionId'')"
  have c: "Component (doc\<lparr>Attr := ?f (Attr doc)\<rparr>) = ''NETWORK''" using a by simp
  show "AddLegacyString L (doc\<lparr>Attr := ?f (Attr doc)\<rparr>)
        = (case AddLegacyString L doc of
             Inl p \<Rightarrow> Inl p
           | Inr (e, doc', lg) \<Rightarrow> Inr (e, doc'\<lparr>Attr := ?f (Attr doc)\<rparr>, lg))"
    using a
    by (simp add: AddLegacyString_network [OF c] AddLegacyString_network [of doc]
        networkLoop_skip_connectionId split: sum.splits prod.splits)
  qed
next
  show "Component doc = ''NETWORK'' \<and> Msg doc = ''Connection ended''
        \<and> AddLegacyString L doc = Inr (e, doc', lg) \<longrightarrow>
        Remote doc' = Remote doc \<or> (\<exists>x. Remote doc' = Some x \<and> Ended x = 1 \<and> Accepted x = 0)"
  proof
  assume a: "Component doc = ''NETWORK'' \<and> Msg doc = ''Connection ended''
        \<and> AddLegacyString L doc = Inr (e, doc', lg)"
  then obtain arr1 r1 where
    loop: "networkLoop L ''Connection ended'' (Attr doc) (msgTokens ''Connection ended'', zeroRemote)
             = Inr (arr1, r1)"
    and rem: "Remote doc' = (if Value r1 \<noteq> [] then Some r1 else Remote doc)"
    by (auto simp: AddLegacyString_network split: sum.splits prod.splits if_splits)
  from networkLoop_last [OF loop]
  have "Value r1 \<noteq> [] \<longrightarrow> Ended r1 = 1 \<and> Accepted r1 = 0"
    by (auto simp: zeroRemote_def split: option.splits)
  with rem show "Remote doc' = Remote doc \<or> (\<exists>x. Remote doc' = Some x \<and> Ended x = 1 \<and> Accepted x = 0)"
    by auto
  qed
next
  show "AddLegacyString (L\<lparr>toInt := ToInt\<rparr>)
        \<lparr>Component = ''NETWORK'', Msg = ''Connection ended'',
         Attr = [(''remote'', VString ''127.0.0.1:54321''), (''connectionCount'', VInt 3)],
         Message = m, Remote = r0, \<dots> = z\<rparr>
      = Inr (None,
        \<lparr>Component = ''NETWORK'', Msg = ''Connection ended'',
         Attr = [(''remote'', VString ''127.0.0.1:54321''), (''connectionCount'', VInt 3)],
         Message = ''end connection 127.0.0.1:54321 (3 connections now open)'',
         Remote = Some \<lparr>Value = ''127.0.0.1'', Port = ''54321'', Accepted = 0, Ended = 1, Conns = 3\<rparr>,
         \<dots> = z\<rparr>, [])"
    by (simp add: AddLegacyString_def legacyTokens_def msgTokens_def Map_of_D_def networkAttr_def
        fmtV_def index_def zeroRemote_def itoa_def decimal_digit digit_def ToInt_def)
qed

text \<open>C4 on a \<^verbatim>\<open>Connection ended\<close> record with a \<^verbatim>\<open>connectionId\<close> attribute, and without it.\<close>

theorem C4_witness:
  "networkAttr exampleLib ''Connection ended'' (''remote'', VString ''127.0.0.1:54321'')
     ([''end connection''], zeroRemote)
   = Inr ([''end connection'', ''127.0.0.1:54321''],
          \<lparr>Value = ''127.0.0.1'', Port = ''54321'', Accepted = 0, Ended = 1, Conns = 0\<rparr>)
   \<and> AddLegacyString exampleLib
        \<lparr>Component = ''NETWORK'', Msg = ''Connection ended'',
         Attr = [(''remote'', VString ''127.0.0.1:54321''), (''connectionId'', VInt 9)],
         Message = [], Remote = None\<rparr>
     = Inr (None,
        \<lparr>Component = ''NETWORK'', Msg = ''Connection ended'',
         Attr = [(''remote'', VString ''127.0.0.1:54321''), (''connectionId'', VInt 9)],
         Message = ''end connection 127.0.0.1:54321'',
         Remote = Some \<lparr>Value = ''127.0.0.1'', Port = ''54321'', Accepted = 0, Ended = 1, Conns = 0\<rparr>\<rparr>,
        [])
   \<and> AddLegacyString exampleLib
        \<lparr>Component = ''NETWORK'', Msg = ''Connection ended'',
         Attr = [(''remote'', VString ''127.0.0.1:54321'')],
         Message = [], Remote = None\<rparr>
     = Inr (None,
        \<lparr>Component = ''NETWORK'', Msg = ''Connection ended'',
         Attr = [(''remote'', VString ''127.0.0.1:54321'')],
         Message = ''end connection 127.0.0.1:54321'',
         Remote = Some \<lparr>Value = ''127.0.0.1'', Port = ''54321'', Accepted = 0, Ended = 1, Conns = 0\<rparr>\<rparr>,
        [])"
  using C4_connection_ended [where L = exampleLib and v = "VString ''127.0.0.1:54321''"
      and arr = "[''end connection'']" and r = zeroRemote
      and arr' = "[''end connection'', ''127.0.0.1:54321'']"
      and r' = "\<lparr>Value = ''127.0.0.1'', Port = ''54321'', Accepted = 0, Ended = 1, Conns = 0\<rparr>"
      and doc = "\<lparr>Component = ''NETWORK'', Msg = ''Connection ended'',
         Attr = [(''remote'', VString ''127.0.0.1:54321''), (''connectionId'', VInt 9)],
         Message = [], Remote = None\<rparr>"
      and e = None
      and doc' = "\<lparr>Component = ''NETWORK'', Msg = ''Connection ended'',
         Attr = [(''remote'', VString ''127.0.0.1:54321''), (''connectionId'', VInt 9)],
         Message = ''end connection 127.0.0.1:54321'',
         Remote = Some \<lparr>Value = ''127.0.0.1'', Port = ''54321'', Accepted = 0, Ended = 1, Conns = 0\<rparr>\<rparr>"
      and lg = "[]" and m = "[]" and ?r0.0 = None and z = "()"]
  by (simp add: AddLegacyString_def legacyTokens_def msgTokens_def Map_of_D_def networkAttr_def
      fmtV_def index_def zeroRemote_def)

text \<open>
  C5. For the record with Component \<^verbatim>\<open>ACCESS\<close>, Msg \<^verbatim>\<open>Authentication succeeded\<close> and
  attributes \<^verbatim>\<open>authenticationDatabase:"admin"\<close> then \<^verbatim>\<open>principalName:"alice"\<close>, the call
  returns a nil error, logs nothing and sets Message to
  \<^verbatim>\<open>Successfully authenticated on admin as principal alice\<close>, leaving the rest of the
  record as it was.
\<close>

theorem C5_access_scenario:
  "AddLegacyString L
     \<lparr>Component = ''ACCESS'', Msg = ''Authentication succeeded'',
      Attr = [(''authenticationDatabase'', VString ''admin''), (''principalName'', VString ''alice'')],
      Message = m, Remote = r, \<dots> = z\<rparr>
   = Inr (None,
     \<lparr>Component = ''ACCESS'', Msg = ''Authentication succeeded'',
      Attr = [(''authenticationDatabase'', VString ''admin''), (''principalName'', VString ''alice'')],
      Message = ''Successfully authenticated on admin as principal alice'', Remote = r, \<dots> = z\<rparr>, [])"
  by (simp add: AddLegacyString_def legacyTokens_def msgTokens_def Map_of_D_def accessAttr_def fmtV_def)

section \<open>Tokens, frame and purity\<close>

text \<open>
  C6. The message \<^verbatim>\<open>Slow query\<close> contributes no token and every other message exactly
  one; a \<^verbatim>\<open>Slow query\<close> record without attributes is returned as it was, whatever its
  Component; whenever no token results, the call returns the record with its Message
  field as it was; and whenever some token results, Message is the tokens joined by
  single spaces.
\<close>

theorem C6_slow_query_and_no_tokens:
  "msgTokens ''Slow query'' = []
   \<and> (msg \<noteq> ''Slow query'' \<longrightarrow> length (msgTokens msg) = 1)
   \<and> (Msg doc = ''Slow query'' \<and> Attr doc = [] \<longrightarrow> AddLegacyString L doc = Inr (None, doc, []))
   \<and> (legacyTokens L doc = Inr ([], doc1, lg) \<longrightarrow>
        AddLegacyString L doc = Inr (None, doc1, lg) \<and> Message doc1 = Message doc)
   \<and> (legacyTokens L doc = Inr (arr, doc1, lg) \<and> arr \<noteq> [] \<longrightarrow>
        AddLegacyString L doc = Inr (None, doc1\<lparr>Message := strings_Join arr '' ''\<rparr>, lg))"
proof (intro conjI)
  show "msgTokens ''Slow query'' = []" by (simp add: msgTokens_def)
next
  show "msg \<noteq> ''Slow query'' \<longrightarrow> length (msgTokens msg) = 1" by (simp add: msgTokens_def)
next
  show "Msg doc = ''Slow query'' \<and> Attr doc = [] \<longrightarrow> AddLegacyString L doc = Inr (None, doc, [])"
    by (simp add: AddLegacyString_def legacyTokens_def msgTokens_def Map_of_D_def zeroRemote_def)
next
  show "legacyTokens L doc = Inr ([], doc1, lg) \<longrightarrow>
        AddLegacyString L doc = Inr (None, doc1, lg) \<and> Message doc1 = Message doc"
    using legacyTokens_frame [of L doc "[]" doc1 lg]
    by (simp add: AddLegacyString_def)
next
  show "legacyTokens L doc = Inr (arr, doc1, lg) \<and> arr \<noteq> [] \<longrightarrow>
        AddLegacyString L doc = Inr (None, doc1\<lparr>Message := strings_Join arr '' ''\<rparr>, lg)"
    by (simp add: AddLegacyString_def)
qed

text \<open>C6 on a \<^verbatim>\<open>Slow query\<close> record with no attribute, and with one.\<close>

theorem C6_witness:
  "legacyTokens exampleLib
     \<lparr>Component = ''COMMAND'', Msg = ''Slow query'', Attr = [], Message = ''earlier'', Remote = None\<rparr>
   = Inr ([], \<lparr>Component = ''COMMAND'', Msg = ''Slow query'', Attr = [], Message = ''earlier'',
               Remote = None\<rparr>, [])
   \<and> AddLegacyString exampleLib
     \<lparr>Component = ''COMMAND'', Msg = ''Slow query'', Attr = [], Message = ''earlier'', Remote = None\<rparr>
   = Inr (None, \<lparr>Component = ''COMMAND'', Msg = ''Slow query'', Attr = [], Message = ''earlier'',
                 Remote = None\<rparr>, [])
   \<and> length (msgTokens ''Stopping'') = 1
   \<and> AddLegacyString exampleLib
     \<lparr>Component = ''COMMAND'', Msg = ''Slow query'', Attr = [(''ns'', VString ''db.c'')],
      Message = ''earlier'', Remote = None\<rparr>
   = Inr (None, \<lparr>Component = ''COMMAND'', Msg = ''Slow query'', Attr = [(''ns'', VString ''db.c'')],
                 Message = ''db.c'', Remote = None\<rparr>, [])"
  using C6_slow_query_and_no_tokens [where L = exampleLib and msg = "''Stopping''"
      and doc = "\<lparr>Component = ''COMMAND'', Msg = ''Slow query'', Attr = [], Message = ''earlier'',
                  Remote = None\<rparr>"
      and ?doc1.0 = "\<lparr>Component = ''COMMAND'', Msg = ''Slow query'', Attr = [], Message = ''earlier'',
                  Remote = None\<rparr>"
      and lg = "[]" and arr = "[]"]
    C6_slow_query_and_no_tokens [where L = exampleLib and msg = "''Stopping''"
      and doc = "\<lparr>Component = ''COMMAND'', Msg = ''Slow query'', Attr = [(''ns'', VString ''db.c'')],
                  Message = ''earlier'', Remote = None\<rparr>"
      and ?doc1.0 = "\<lparr>Component = ''COMMAND'', Msg = ''Slow query'', Attr = [(''ns'', VString ''db.c'')],
                  Message = ''earlier'', Remote = None\<rparr>"
      and lg = "[]" and arr = "[''db.c'']"]
  by (simp add: legacyTokens_def msgTokens_def Map_of_D_def defaultAttr_def)

text \<open>
  C8. When the call returns, Component, Msg, Attr and every field the function does not
  name are as before. And the outcome is a function of Component, Msg and Attr (and the
  library): for all records that agree on these three, the call panics with the same
  panic, or returns nil with the same lines logged, the same Message written or each
  Message left as it was, and the same Remote attached or each Remote left as it was.
\<close>

theorem C8_frame_and_purity:
  "(AddLegacyString L doc = Inr (e, doc', lg) \<longrightarrow>
      Component doc' = Component doc \<and> Msg doc' = Msg doc \<and> Attr doc' = Attr doc
      \<and> Logv2Info.more doc' = Logv2Info.more doc)
   \<and> (\<exists>res. \<forall>d :: 'a Logv2Info_scheme.
         Component d = Component doc \<and> Msg d = Msg doc \<and> Attr d = Attr doc \<longrightarrow>
         AddLegacyString L d =
           (case res of
              Inl p \<Rightarrow> Inl p
            | Inr (mu, ru, lg) \<Rightarrow>
                Inr (None,
                     d\<lparr>Message := (case mu of None \<Rightarrow> Message d | Some t \<Rightarrow> t),
                       Remote := (case ru of None \<Rightarrow> Remote d | Some x \<Rightarrow> Some x)\<rparr>,
                     lg)))"
proof (intro conjI)
  show "AddLegacyString L doc = Inr (e, doc', lg) \<longrightarrow>
      Component doc' = Component doc \<and> Msg doc' = Msg doc \<and> Attr doc' = Attr doc
      \<and> Logv2Info.more doc' = Logv2Info.more doc"
  proof
    assume "AddLegacyString L doc = Inr (e, doc', lg)"
    then obtain arr doc1 where tk: "legacyTokens L doc = Inr (arr, doc1, lg)"
      and d': "doc' = doc1 \<or> doc' = doc1\<lparr>Message := strings_Join arr '' ''\<rparr>"
      by (auto simp: AddLegacyString_def split: sum.splits prod.splits if_splits)
    from legacyTokens_frame [OF tk] d'
    show "Component doc' = Component doc \<and> Msg doc' = Msg doc \<and> Attr doc' = Attr doc
        \<and> Logv2Info.more doc' = Logv2Info.more doc"
      by auto
  qed
next
  define res :: "panic + (string option \<times> Remote option \<times> diag list)" where
    "res = (case legacyTokens L (doc\<lparr>Remote := None\<rparr>) of
              Inl p \<Rightarrow> Inl p
            | Inr (arr, doc1, lg) \<Rightarrow>
                Inr (if arr = [] then None else Some (strings_Join arr '' ''), Remote doc1, lg))"
  have "AddLegacyString L d =
           (case res of
              Inl p \<Rightarrow> Inl p
            | Inr (mu, ru, lg) \<Rightarrow>
                Inr (None,
                     d\<lparr>Message := (case mu of None \<Rightarrow> Message d | Some t \<Rightarrow> t),
                       Remote := (case ru of None \<Rightarrow> Remote d | Some x \<Rightarrow> Some x)\<rparr>,
                     lg))"
    if "Component d = Component doc \<and> Msg d = Msg doc \<and> Attr d = Attr doc"
    for d :: "'a Logv2Info_scheme"
    using that unfolding res_def AddLegacyString_def legacyTokens_def
    by (auto simp: Let_def split: sum.splits prod.splits)
  then show "\<exists>res. \<forall>d :: 'a Logv2Info_scheme.
         Component d = Component doc \<and> Msg d = Msg doc \<and> Attr d = Attr doc \<longrightarrow>
         AddLegacyString L d =
           (case res of
              Inl p \<Rightarrow> Inl p
            | Inr (mu, ru, lg) \<Rightarrow>
                Inr (None,
                     d\<lparr>Message := (case mu of None \<Rightarrow> Message d | Some t \<Rightarrow> t),
                       Remote := (case ru of None \<Rightarrow> Remote d | Some x \<Rightarrow> Some x)\<rparr>,
                     lg))"
    by blast
qed

text \<open>C8 on two \<^verbatim>\<open>ACCESS\<close> records that differ in Message and Remote only.\<close>

theorem C8_witness:
  "\<exists>res.
     AddLegacyString exampleLib
       \<lparr>Component = ''ACCESS'', Msg = ''Authentication succeeded'',
        Attr = [(''principalName'', VString ''alice'')], Message = [], Remote = None\<rparr>
     = Inr (None,
        \<lparr>Component = ''ACCESS'', Msg = ''Authentication succeeded'',
         Attr = [(''principalName'', VString ''alice'')],
         Message = ''Successfully authenticated as principal alice'', Remote = None\<rparr>, [])
   \<and> AddLegacyString exampleLib
       \<lparr>Component = ''ACCESS'', Msg = ''Authentication succeeded'',
        Attr = [(''principalName'', VString ''alice'')], Message = ''earlier'',
        Remote = Some zeroRemote\<rparr>
     = (case res of
          Inl p \<Rightarrow> Inl p
        | Inr (mu, ru, lg) \<Rightarrow>
            Inr (None,
              \<lparr>Component = ''ACCESS'', Msg = ''Authentication succeeded'',
               Attr = [(''principalName'', VString ''alice'')],
               Message = (case mu of None \<Rightarrow> ''earlier'' | Some t \<Rightarrow> t),
               Remote = (case ru of None \<Rightarrow> Some zeroRemote | Some x \<Rightarrow> Some x)\<rparr>, lg))"
proof -
  let ?D = "\<lparr>Component = ''ACCESS'', Msg = ''Authentication succeeded'',
        Attr = [(''principalName'', VString ''alice'')], Message = [], Remote = None\<rparr>"
  let ?D2 = "\<lparr>Component = ''ACCESS'', Msg = ''Authentication succeeded'',
        Attr = [(''principalName'', VString ''alice'')], Message = ''earlier'',
        Remote = Some zeroRemote\<rparr>"
  have ev: "AddLegacyString exampleLib ?D
     = Inr (None,
        \<lparr>Component = ''ACCESS'', Msg = ''Authentication succeeded'',
         Attr = [(''principalName'', VString ''alice'')],
         Message = ''Successfully authenticated as principal alice'', Remote = None\<rparr>, [])"
    by (simp add: AddLegacyString_def legacyTokens_def msgTokens_def Map_of_D_def accessAttr_def
        fmtV_def)
  from C8_frame_and_purity [where L = exampleLib and doc = ?D] obtain res where
    R: "\<forall>d :: Logv2Info.
         Component d = Component ?D \<and> Msg d = Msg ?D \<and> Attr d = Attr ?D \<longrightarrow>
         AddLegacyString exampleLib d =
           (case res of
              Inl p \<Rightarrow> Inl p
            | Inr (mu, ru, lg) \<Rightarrow>
                Inr (None,
                     d\<lparr>Message := (case mu of None \<Rightarrow> Message d | Some t \<Rightarrow> t),
                       Remote := (case ru of None \<Rightarrow> Remote d | Some x \<Rightarrow> Some x)\<rparr>,
                     lg))"
    by blast
  from R [rule_format, of ?D2] ev show ?thesis
    by (intro exI [of _ res]) (simp split: sum.splits prod.splits option.splits)
qed

end
